theory Spec2Isabelle
  imports Complex_Main
begin

section \<open>Data model\<close>

text \<open>
  A \<open>Matrix3\<close> is a \<open>Float64Array\<close> of nine slots. Slot \<open>3 * j + i\<close> holds the entry
  of row \<open>i\<close> and column \<open>j\<close>. The scalars are modelled as exact reals: rounding, the
  infinities and NaN of double precision are outside this development.
\<close>

record Matrix3 =
  e0 :: real
  e1 :: real
  e2 :: real
  e3 :: real
  e4 :: real
  e5 :: real
  e6 :: real
  e7 :: real
  e8 :: real

text \<open>
  Modelled from the spec: the class \<open>Vector3\<close> of \<open>./Vector3\<close> is not part of the
  sources; it is an object of three indexable scalar components, built from three
  scalars.
\<close>

record Vector3 =
  c0 :: real
  c1 :: real
  c2 :: real

text \<open>
  Reading and writing a slot by its index, \<open>this[k]\<close> and \<open>this[k] = v\<close>. The methods
  modelled here use the constant indices \<open>0\<close> to \<open>8\<close> only; a write at any other index
  leaves a typed array as it is.
\<close>

definition getm :: "Matrix3 \<Rightarrow> nat \<Rightarrow> real" where
  "getm b k =
     (if k = 0 then e0 b else if k = 1 then e1 b else if k = 2 then e2 b
      else if k = 3 then e3 b else if k = 4 then e4 b else if k = 5 then e5 b
      else if k = 6 then e6 b else if k = 7 then e7 b else e8 b)"

definition setm :: "Matrix3 \<Rightarrow> nat \<Rightarrow> real \<Rightarrow> Matrix3" where
  "setm b k v =
     (if k = 0 then b\<lparr>e0 := v\<rparr> else if k = 1 then b\<lparr>e1 := v\<rparr>
      else if k = 2 then b\<lparr>e2 := v\<rparr> else if k = 3 then b\<lparr>e3 := v\<rparr>
      else if k = 4 then b\<lparr>e4 := v\<rparr> else if k = 5 then b\<lparr>e5 := v\<rparr>
      else if k = 6 then b\<lparr>e6 := v\<rparr> else if k = 7 then b\<lparr>e7 := v\<rparr>
      else if k = 8 then b\<lparr>e8 := v\<rparr> else b)"

definition getv :: "Vector3 \<Rightarrow> nat \<Rightarrow> real" where
  "getv u k = (if k = 0 then c0 u else if k = 1 then c1 u else c2 u)"

definition setv :: "Vector3 \<Rightarrow> nat \<Rightarrow> real \<Rightarrow> Vector3" where
  "setv u k v =
     (if k = 0 then u\<lparr>c0 := v\<rparr> else if k = 1 then u\<lparr>c1 := v\<rparr>
      else if k = 2 then u\<lparr>c2 := v\<rparr> else u)"

text \<open>
  Matrices and vectors are objects: a variable holds a reference, and two references
  may name the same object. The store maps references to contents; \<open>mnext\<close> and
  \<open>vnext\<close> are the first references not yet handed out by \<open>new\<close>.
\<close>

record heap =
  mats :: "nat \<Rightarrow> Matrix3"
  mnext :: nat
  vecs :: "nat \<Rightarrow> Vector3"
  vnext :: nat

definition put :: "nat \<Rightarrow> Matrix3 \<Rightarrow> heap \<Rightarrow> heap" where
  "put a b h = h\<lparr>mats := (mats h)(a := b)\<rparr>"

definition rd :: "heap \<Rightarrow> nat \<Rightarrow> nat \<Rightarrow> real" where
  "rd h a k = getm (mats h a) k"

definition wr :: "nat \<Rightarrow> nat \<Rightarrow> real \<Rightarrow> heap \<Rightarrow> heap" where
  "wr a k v h = put a (setm (mats h a) k v) h"

definition vput :: "nat \<Rightarrow> Vector3 \<Rightarrow> heap \<Rightarrow> heap" where
  "vput a u h = h\<lparr>vecs := (vecs h)(a := u)\<rparr>"

definition vrd :: "heap \<Rightarrow> nat \<Rightarrow> nat \<Rightarrow> real" where
  "vrd h a k = getv (vecs h a) k"

definition vwr :: "nat \<Rightarrow> nat \<Rightarrow> real \<Rightarrow> heap \<Rightarrow> heap" where
  "vwr a k v h = vput a (setv (vecs h a) k v) h"

definition zeros9 :: Matrix3 where
  "zeros9 = \<lparr>e0 = 0, e1 = 0, e2 = 0, e3 = 0, e4 = 0, e5 = 0, e6 = 0, e7 = 0, e8 = 0\<rparr>"

text \<open>\<open>new Vector3(a, b, c)\<close>.\<close>

definition new_Vector3 :: "real \<Rightarrow> real \<Rightarrow> real \<Rightarrow> heap \<Rightarrow> nat \<times> heap" where
  "new_Vector3 a b c h =
     (let u = vnext h
      in (u, vput u \<lparr>c0 = a, c1 = b, c2 = c\<rparr> (h\<lparr>vnext := u + 1\<rparr>)))"

section \<open>The class Matrix3\<close>

text \<open>
  The constructor takes the components ordered by rows and stores them by columns:
  \<open>super(9)\<close> allocates nine zeros, then the nine slots are written.
\<close>

definition new_Matrix3 ::
  "real \<Rightarrow> real \<Rightarrow> real \<Rightarrow> real \<Rightarrow> real \<Rightarrow> real \<Rightarrow> real \<Rightarrow> real \<Rightarrow> real \<Rightarrow> heap \<Rightarrow> nat \<times> heap"
where
  "new_Matrix3 xx xy xz yx yy yz zx zy zz h =
     (let this = mnext h;
          h0 = put this zeros9 (h\<lparr>mnext := this + 1\<rparr>);
          h1 = wr this 0 xx h0;
          h2 = wr this 1 yx h1;
          h3 = wr this 2 zx h2;
          h4 = wr this 3 xy h3;
          h5 = wr this 4 yy h4;
          h6 = wr this 5 zy h5;
          h7 = wr this 6 xz h6;
          h8 = wr this 7 yz h7;
          h9 = wr this 8 zz h8
      in (this, h9))"

definition clone :: "nat \<Rightarrow> heap \<Rightarrow> nat \<times> heap" where
  "clone this h =
     new_Matrix3 (rd h this 0) (rd h this 3) (rd h this 6)
                 (rd h this 1) (rd h this 4) (rd h this 7)
                 (rd h this 2) (rd h this 5) (rd h this 8) h"

definition prod_m :: "nat \<Rightarrow> nat \<Rightarrow> heap \<Rightarrow> nat \<times> heap" where
  "prod_m this m h =
     (let xx = rd h this 0; yx = rd h this 1; zx = rd h this 2;
          xy = rd h this 3; yy = rd h this 4; zy = rd h this 5;
          xz = rd h this 6; yz = rd h this 7; zz = rd h this 8;
          mxx = rd h m 0; myx = rd h m 1; mzx = rd h m 2;
          mxy = rd h m 3; myy = rd h m 4; mzy = rd h m 5;
          mxz = rd h m 6; myz = rd h m 7; mzz = rd h m 8;
          h1 = wr this 0 (mxx * xx + myx * xy + mzx * xz) h;
          h2 = wr this 1 (mxx * yx + myx * yy + mzx * yz) h1;
          h3 = wr this 2 (mxx * zx + myx * zy + mzx * zz) h2;
          h4 = wr this 3 (mxy * xx + myy * xy + mzy * xz) h3;
          h5 = wr this 4 (mxy * yx + myy * yy + mzy * yz) h4;
          h6 = wr this 5 (mxy * zx + myy * zy + mzy * zz) h5;
          h7 = wr this 6 (mxz * xx + myz * xy + mzz * xz) h6;
          h8 = wr this 7 (mxz * yx + myz * yy + mzz * yz) h7;
          h9 = wr this 8 (mxz * zx + myz * zy + mzz * zz) h8
      in (this, h9))"

definition prodc :: "nat \<Rightarrow> nat \<Rightarrow> heap \<Rightarrow> nat \<times> heap" where
  "prodc this m h = (let (c, h1) = clone this h in prod_m c m h1)"

text \<open>
  The elementwise family. Each compound assignment \<open>this[k] op= e\<close> reads the store as
  the previous assignment left it. Division is the division of the reals, so the
  quotient by \<open>0\<close> (an infinity or NaN in the source) is outside this development.
\<close>

definition fill :: "nat \<Rightarrow> real \<Rightarrow> heap \<Rightarrow> nat \<times> heap" where
  "fill this s h =
     (let h1 = wr this 0 s h;
          h2 = wr this 1 s h1;
          h3 = wr this 2 s h2;
          h4 = wr this 3 s h3;
          h5 = wr this 4 s h4;
          h6 = wr this 5 s h5;
          h7 = wr this 6 s h6;
          h8 = wr this 7 s h7;
          h9 = wr this 8 s h8
      in (this, h9))"

definition fillc :: "nat \<Rightarrow> real \<Rightarrow> heap \<Rightarrow> nat \<times> heap" where
  "fillc this s h = (let (c, h1) = clone this h in fill c s h1)"

text \<open>
  \<open>mag\<close> comes from the module \<open>./Algebra\<close>, which is not part of the sources: \<open>norm\<close>
  takes it as a parameter.
\<close>

definition norm_m :: "(Matrix3 \<Rightarrow> real) \<Rightarrow> nat \<Rightarrow> heap \<Rightarrow> nat \<times> heap" where
  "norm_m mag this h =
     (let s = mag (mats h this);
          h1 = wr this 0 (rd h this 0 / s) h;
          h2 = wr this 1 (rd h1 this 1 / s) h1;
          h3 = wr this 2 (rd h2 this 2 / s) h2;
          h4 = wr this 3 (rd h3 this 3 / s) h3;
          h5 = wr this 4 (rd h4 this 4 / s) h4;
          h6 = wr this 5 (rd h5 this 5 / s) h5;
          h7 = wr this 6 (rd h6 this 6 / s) h6;
          h8 = wr this 7 (rd h7 this 7 / s) h7;
          h9 = wr this 8 (rd h8 this 8 / s) h8
      in (this, h9))"

definition normc :: "(Matrix3 \<Rightarrow> real) \<Rightarrow> nat \<Rightarrow> heap \<Rightarrow> nat \<times> heap" where
  "normc mag this h = (let (c, h1) = clone this h in norm_m mag c h1)"

definition add :: "nat \<Rightarrow> nat \<Rightarrow> heap \<Rightarrow> nat \<times> heap" where
  "add this m h =
     (let h1 = wr this 0 (rd h this 0 + rd h m 0) h;
          h2 = wr this 1 (rd h1 this 1 + rd h1 m 1) h1;
          h3 = wr this 2 (rd h2 this 2 + rd h2 m 2) h2;
          h4 = wr this 3 (rd h3 this 3 + rd h3 m 3) h3;
          h5 = wr this 4 (rd h4 this 4 + rd h4 m 4) h4;
          h6 = wr this 5 (rd h5 this 5 + rd h5 m 5) h5;
          h7 = wr this 6 (rd h6 this 6 + rd h6 m 6) h6;
          h8 = wr this 7 (rd h7 this 7 + rd h7 m 7) h7;
          h9 = wr this 8 (rd h8 this 8 + rd h8 m 8) h8
      in (this, h9))"

definition addc :: "nat \<Rightarrow> nat \<Rightarrow> heap \<Rightarrow> nat \<times> heap" where
  "addc this m h = (let (c, h1) = clone this h in add c m h1)"

definition sub :: "nat \<Rightarrow> nat \<Rightarrow> heap \<Rightarrow> nat \<times> heap" where
  "sub this m h =
     (let h1 = wr this 0 (rd h this 0 - rd h m 0) h;
          h2 = wr this 1 (rd h1 this 1 - rd h1 m 1) h1;
          h3 = wr this 2 (rd h2 this 2 - rd h2 m 2) h2;
          h4 = wr this 3 (rd h3 this 3 - rd h3 m 3) h3;
          h5 = wr this 4 (rd h4 this 4 - rd h4 m 4) h4;
          h6 = wr this 5 (rd h5 this 5 - rd h5 m 5) h5;
          h7 = wr this 6 (rd h6 this 6 - rd h6 m 6) h6;
          h8 = wr this 7 (rd h7 this 7 - rd h7 m 7) h7;
          h9 = wr this 8 (rd h8 this 8 - rd h8 m 8) h8
      in (this, h9))"

definition subc :: "nat \<Rightarrow> nat \<Rightarrow> heap \<Rightarrow> nat \<times> heap" where
  "subc this m h = (let (c, h1) = clone this h in sub c m h1)"

definition neg :: "nat \<Rightarrow> heap \<Rightarrow> nat \<times> heap" where
  "neg this h =
     (let h1 = wr this 0 (rd h this 0 * (- 1)) h;
          h2 = wr this 1 (rd h1 this 1 * (- 1)) h1;
          h3 = wr this 2 (rd h2 this 2 * (- 1)) h2;
          h4 = wr this 3 (rd h3 this 3 * (- 1)) h3;
          h5 = wr this 4 (rd h4 this 4 * (- 1)) h4;
          h6 = wr this 5 (rd h5 this 5 * (- 1)) h5;
          h7 = wr this 6 (rd h6 this 6 * (- 1)) h6;
          h8 = wr this 7 (rd h7 this 7 * (- 1)) h7;
          h9 = wr this 8 (rd h8 this 8 * (- 1)) h8
      in (this, h9))"

definition negc :: "nat \<Rightarrow> heap \<Rightarrow> nat \<times> heap" where
  "negc this h = (let (c, h1) = clone this h in neg c h1)"

definition mul :: "nat \<Rightarrow> real \<Rightarrow> heap \<Rightarrow> nat \<times> heap" where
  "mul this s h =
     (let h1 = wr this 0 (rd h this 0 * s) h;
          h2 = wr this 1 (rd h1 this 1 * s) h1;
          h3 = wr this 2 (rd h2 this 2 * s) h2;
          h4 = wr this 3 (rd h3 this 3 * s) h3;
          h5 = wr this 4 (rd h4 this 4 * s) h4;
          h6 = wr this 5 (rd h5 this 5 * s) h5;
          h7 = wr this 6 (rd h6 this 6 * s) h6;
          h8 = wr this 7 (rd h7 this 7 * s) h7;
          h9 = wr this 8 (rd h8 this 8 * s) h8
      in (this, h9))"

definition mulc :: "nat \<Rightarrow> real \<Rightarrow> heap \<Rightarrow> nat \<times> heap" where
  "mulc this s h = (let (c, h1) = clone this h in mul c s h1)"

definition div_m :: "nat \<Rightarrow> real \<Rightarrow> heap \<Rightarrow> nat \<times> heap" where
  "div_m this s h =
     (let h1 = wr this 0 (rd h this 0 / s) h;
          h2 = wr this 1 (rd h1 this 1 / s) h1;
          h3 = wr this 2 (rd h2 this 2 / s) h2;
          h4 = wr this 3 (rd h3 this 3 / s) h3;
          h5 = wr this 4 (rd h4 this 4 / s) h4;
          h6 = wr this 5 (rd h5 this 5 / s) h5;
          h7 = wr this 6 (rd h6 this 6 / s) h6;
          h8 = wr this 7 (rd h7 this 7 / s) h7;
          h9 = wr this 8 (rd h8 this 8 / s) h8
      in (this, h9))"

definition divc :: "nat \<Rightarrow> real \<Rightarrow> heap \<Rightarrow> nat \<times> heap" where
  "divc this s h = (let (c, h1) = clone this h in div_m c s h1)"

definition lerp :: "nat \<Rightarrow> nat \<Rightarrow> real \<Rightarrow> heap \<Rightarrow> nat \<times> heap" where
  "lerp this m t h =
     (let h1 = wr this 0 (rd h this 0 + (rd h m 0 - rd h this 0) * t) h;
          h2 = wr this 1 (rd h1 this 1 + (rd h1 m 1 - rd h1 this 1) * t) h1;
          h3 = wr this 2 (rd h2 this 2 + (rd h2 m 2 - rd h2 this 2) * t) h2;
          h4 = wr this 3 (rd h3 this 3 + (rd h3 m 3 - rd h3 this 3) * t) h3;
          h5 = wr this 4 (rd h4 this 4 + (rd h4 m 4 - rd h4 this 4) * t) h4;
          h6 = wr this 5 (rd h5 this 5 + (rd h5 m 5 - rd h5 this 5) * t) h5;
          h7 = wr this 6 (rd h6 this 6 + (rd h6 m 6 - rd h6 this 6) * t) h6;
          h8 = wr this 7 (rd h7 this 7 + (rd h7 m 7 - rd h7 this 7) * t) h7;
          h9 = wr this 8 (rd h8 this 8 + (rd h8 m 8 - rd h8 this 8) * t) h8
      in (this, h9))"

definition lerpc :: "nat \<Rightarrow> nat \<Rightarrow> real \<Rightarrow> heap \<Rightarrow> nat \<times> heap" where
  "lerpc this m t h = (let (c, h1) = clone this h in lerp c m t h1)"

text \<open>The named row accessors \<open>x\<close>, \<open>y\<close>, \<open>z\<close>: each getter builds a new vector.\<close>

definition get_x :: "nat \<Rightarrow> heap \<Rightarrow> nat \<times> heap" where
  "get_x this h = new_Vector3 (rd h this 0) (rd h this 1) (rd h this 2) h"

definition set_x :: "nat \<Rightarrow> nat \<Rightarrow> heap \<Rightarrow> heap" where
  "set_x this newX h =
     (let h1 = wr this 0 (vrd h newX 0) h;
          h2 = wr this 3 (vrd h1 newX 1) h1;
          h3 = wr this 6 (vrd h2 newX 2) h2
      in h3)"

definition get_y :: "nat \<Rightarrow> heap \<Rightarrow> nat \<times> heap" where
  "get_y this h = new_Vector3 (rd h this 3) (rd h this 4) (rd h this 5) h"

definition set_y :: "nat \<Rightarrow> nat \<Rightarrow> heap \<Rightarrow> heap" where
  "set_y this newY h =
     (let h1 = wr this 1 (vrd h newY 0) h;
          h2 = wr this 4 (vrd h1 newY 1) h1;
          h3 = wr this 7 (vrd h2 newY 2) h2
      in h3)"

definition get_z :: "nat \<Rightarrow> heap \<Rightarrow> nat \<times> heap" where
  "get_z this h = new_Vector3 (rd h this 6) (rd h this 7) (rd h this 8) h"

definition set_z :: "nat \<Rightarrow> nat \<Rightarrow> heap \<Rightarrow> heap" where
  "set_z this newZ h =
     (let h1 = wr this 2 (vrd h newZ 0) h;
          h2 = wr this 5 (vrd h1 newZ 1) h1;
          h3 = wr this 8 (vrd h2 newZ 2) h2
      in h3)"

text \<open>The getter \<open>xyz\<close>, "rows of the matrix as vectors".\<close>

definition get_xyz :: "nat \<Rightarrow> heap \<Rightarrow> (nat \<times> nat \<times> nat) \<times> heap" where
  "get_xyz this h =
     (let (r0, h1) = new_Vector3 (rd h this 0) (rd h this 3) (rd h this 6) h;
          (r1, h2) = new_Vector3 (rd h1 this 1) (rd h1 this 4) (rd h1 this 7) h1;
          (r2, h3) = new_Vector3 (rd h2 this 2) (rd h2 this 5) (rd h2 this 8) h2
      in ((r0, r1, r2), h3))"

definition det :: "nat \<Rightarrow> heap \<Rightarrow> real" where
  "det this h =
     (let mxx = rd h this 0; myx = rd h this 1; mzx = rd h this 2;
          mxy = rd h this 3; myy = rd h this 4; mzy = rd h this 5;
          mxz = rd h this 6; myz = rd h this 7; mzz = rd h this 8
      in mxx * (mzz * myy - mzy * myz) + myx * (- mzz * mxy + mzy * mxz)
           + mzx * (myz * mxy - myy * mxz))"

definition dist2 :: "nat \<Rightarrow> nat \<Rightarrow> heap \<Rightarrow> real" where
  "dist2 this m h =
     (let dxx = rd h this 0 - rd h m 0; dyx = rd h this 1 - rd h m 1;
          dzx = rd h this 2 - rd h m 2; dxy = rd h this 3 - rd h m 3;
          dyy = rd h this 4 - rd h m 4; dzy = rd h this 5 - rd h m 5;
          dxz = rd h this 6 - rd h m 6; dyz = rd h this 7 - rd h m 7;
          dzz = rd h this 8 - rd h m 8;
          dxx2 = dxx * dxx; dyx2 = dyx * dyx; dzx2 = dzx * dzx;
          dxy2 = dxy * dxy; dyy2 = dyy * dyy; dzy2 = dzy * dzy;
          dxz2 = dxz * dxz; dyz2 = dyz * dyz; dzz2 = dzz * dzz
      in dxx2 + dyx2 + dzx2 + dxy2 + dyy2 + dzy2 + dxz2 + dyz2 + dzz2)"

text \<open>
  The tolerance \<open>epsilon2\<close> is a constant of \<open>./Algebra\<close>, which is not part of the
  sources: \<open>equal\<close> takes it as a parameter.
\<close>

definition equal :: "real \<Rightarrow> nat \<Rightarrow> nat \<Rightarrow> heap \<Rightarrow> bool" where
  "equal epsilon2 this m h = (dist2 this m h < epsilon2)"

text \<open>\<open>array()\<close> spreads the buffer into a new list, in storage order.\<close>

definition array :: "nat \<Rightarrow> heap \<Rightarrow> real list" where
  "array this h =
     [rd h this 0, rd h this 1, rd h this 2, rd h this 3, rd h this 4, rd h this 5,
      rd h this 6, rd h this 7, rd h this 8]"

definition assign ::
  "nat \<Rightarrow> real \<Rightarrow> real \<Rightarrow> real \<Rightarrow> real \<Rightarrow> real \<Rightarrow> real \<Rightarrow> real \<Rightarrow> real \<Rightarrow> real \<Rightarrow> heap
     \<Rightarrow> nat \<times> heap"
where
  "assign this xx xy xz yx yy yz zx zy zz h =
     (let h1 = wr this 0 xx h;
          h2 = wr this 1 yx h1;
          h3 = wr this 2 zx h2;
          h4 = wr this 3 xy h3;
          h5 = wr this 4 yy h4;
          h6 = wr this 5 zy h5;
          h7 = wr this 6 xz h6;
          h8 = wr this 7 yz h7;
          h9 = wr this 8 zz h8
      in (this, h9))"

definition trans_m :: "nat \<Rightarrow> heap \<Rightarrow> nat \<times> heap" where
  "trans_m this h =
     (let mxy = rd h this 1; mxz = rd h this 2; myz = rd h this 5;
          h1 = wr this 1 (rd h this 3) h;
          h2 = wr this 2 (rd h1 this 6) h1;
          h3 = wr this 3 mxy h2;
          h4 = wr this 5 (rd h3 this 7) h3;
          h5 = wr this 6 mxz h4;
          h6 = wr this 7 myz h5
      in (this, h6))"

definition transc :: "nat \<Rightarrow> heap \<Rightarrow> nat \<times> heap" where
  "transc this h = (let (c, h1) = clone this h in trans_m c h1)"

text \<open>
  \<open>inv\<close> returns \<open>undefined\<close> (here \<open>None\<close>) when the test \<open>!det\<close> succeeds, which for a
  real number is \<open>det = 0\<close>.
\<close>

definition inv_m :: "nat \<Rightarrow> heap \<Rightarrow> nat option \<times> heap" where
  "inv_m this h =
     (let xx = rd h this 0; yx = rd h this 1; zx = rd h this 2;
          xy = rd h this 3; yy = rd h this 4; zy = rd h this 5;
          xz = rd h this 6; yz = rd h this 7; zz = rd h this 8;
          dyx = zz * yy - zy * yz;
          dyy = - zz * xy + zy * xz;
          dyz = yz * xy - yy * xz;
          det0 = xx * dyx + yx * dyy + zx * dyz
      in if det0 = 0 then (None, h)
         else
           (let det1 = 1 / det0;
                h1 = wr this 0 (dyx * det1) h;
                h2 = wr this 1 ((- zz * yx + zx * yz) * det1) h1;
                h3 = wr this 2 ((zy * yx - zx * yy) * det1) h2;
                h4 = wr this 3 (dyy * det1) h3;
                h5 = wr this 4 ((zz * xx - zx * xz) * det1) h4;
                h6 = wr this 5 ((- zy * xx + zx * xy) * det1) h5;
                h7 = wr this 6 (dyz * det1) h6;
                h8 = wr this 7 ((- yz * xx + yx * xz) * det1) h7;
                h9 = wr this 8 ((yy * xx - yx * xy) * det1) h8
            in (Some this, h9)))"

definition invc :: "nat \<Rightarrow> heap \<Rightarrow> nat option \<times> heap" where
  "invc this h = (let (c, h1) = clone this h in inv_m c h1)"


text \<open>
  The exponent \<open>exp\<close> is written \<open>ex\<close> and is an integer here. On the branch
  \<open>exp > 1\<close> it is positive, where the remainder \<open>%\<close> is \<open>mod\<close> and the quotients
  \<open>exp / 2\<close> (even) and \<open>(exp - 1) / 2\<close> (odd) are exact. \<open>rpow\<close> returns nothing: the
  model returns the store.
\<close>

function rpow :: "nat \<Rightarrow> int \<Rightarrow> heap \<Rightarrow> heap" where
  "rpow this ex h =
     (if ex > 1 then
        (let (copy, h1) = clone this h;
             h2 = snd (prod_m this copy h1)
         in if ex mod 2 = 0 then rpow this (ex div 2) h2
            else if ex mod 2 = 1 then
              (let h3 = rpow this ((ex - 1) div 2) h2
               in snd (prod_m this copy h3))
            else h2)
      else h)"
  by pat_completeness auto
termination
  by (relation "measure (\<lambda>(this, ex, h). nat ex)") auto

declare rpow.simps [simp del]

definition pow :: "nat \<Rightarrow> int \<Rightarrow> heap \<Rightarrow> nat \<times> heap" where
  "pow this ex h =
     (let h1 = (if ex < 0 then snd (inv_m this h) else h);
          h2 = (if ex = 0 then snd (assign this 1 0 0 0 1 0 0 0 1 h1) else h1);
          h3 = rpow this \<bar>ex\<bar> h2
      in (this, h3))"

definition powc :: "nat \<Rightarrow> int \<Rightarrow> heap \<Rightarrow> nat \<times> heap" where
  "powc this ex h = (let (c, h1) = clone this h in pow c ex h1)"

definition adj :: "nat \<Rightarrow> heap \<Rightarrow> nat \<times> heap" where
  "adj this h =
     (let xx = rd h this 0; yx = rd h this 1; zx = rd h this 2;
          xy = rd h this 3; yy = rd h this 4; zy = rd h this 5;
          xz = rd h this 6; yz = rd h this 7; zz = rd h this 8;
          h1 = wr this 0 (yy * zz - zy * yz) h;
          h2 = wr this 1 (zx * yz - yx * zz) h1;
          h3 = wr this 2 (yx * zy - zx * yy) h2;
          h4 = wr this 3 (zy * xz - xy * zz) h3;
          h5 = wr this 4 (xx * zz - zx * xz) h4;
          h6 = wr this 5 (zx * xy - xx * zy) h5;
          h7 = wr this 6 (xy * yz - yy * xz) h6;
          h8 = wr this 7 (yx * xz - xx * yz) h7;
          h9 = wr this 8 (xx * yy - yx * xy) h8
      in (this, h9))"

definition adjc :: "nat \<Rightarrow> heap \<Rightarrow> nat \<times> heap" where
  "adjc this h = (let (c, h1) = clone this h in adj c h1)"

text \<open>The generators are static: each allocates a new matrix.\<close>

definition zeros :: "heap \<Rightarrow> nat \<times> heap" where
  "zeros h = new_Matrix3 0 0 0 0 0 0 0 0 0 h"




text \<open>
  The static \<open>Matrix3.array\<close> reads \<open>arr[0]\<close> to \<open>arr[8]\<close> as components ordered by
  rows. A shorter list makes the source store NaN, which no real stands for: the result
  is then \<open>None\<close>.
\<close>

definition Matrix3_array :: "real list \<Rightarrow> heap \<Rightarrow> (nat \<times> heap) option" where
  "Matrix3_array arr h =
     (if length arr < 9 then None
      else Some (new_Matrix3 (arr ! 0) (arr ! 1) (arr ! 2)
                             (arr ! 3) (arr ! 4) (arr ! 5)
                             (arr ! 6) (arr ! 7) (arr ! 8) h))"

section \<open>Matrices as grids\<close>

text \<open>
  The mathematical reading of a buffer: \<open>entry b i j\<close> is the entry of row \<open>i\<close> and
  column \<open>j\<close>, and the usual product, unit and powers of 3x3 matrices are defined on
  entries, independently of the code.
\<close>

definition entry :: "Matrix3 \<Rightarrow> nat \<Rightarrow> nat \<Rightarrow> real" where
  "entry b i j = getm b (3 * j + i)"

definition of_entries :: "(nat \<Rightarrow> nat \<Rightarrow> real) \<Rightarrow> Matrix3" where
  "of_entries f =
     \<lparr>e0 = f 0 0, e1 = f 1 0, e2 = f 2 0,
      e3 = f 0 1, e4 = f 1 1, e5 = f 2 1,
      e6 = f 0 2, e7 = f 1 2, e8 = f 2 2\<rparr>"

definition matmul :: "Matrix3 \<Rightarrow> Matrix3 \<Rightarrow> Matrix3" where
  "matmul A B = of_entries (\<lambda>i j. \<Sum>k<3. entry A i k * entry B k j)"

definition ident :: Matrix3 where
  "ident = of_entries (\<lambda>i j. if i = j then 1 else 0)"

primrec matpow :: "Matrix3 \<Rightarrow> nat \<Rightarrow> Matrix3" where
  "matpow A 0 = ident"
| "matpow A (Suc n) = matmul (matpow A n) A"

definition mattr :: "Matrix3 \<Rightarrow> Matrix3" where
  "mattr A = of_entries (\<lambda>i j. entry A j i)"


text \<open>
  The cofactor of the entry \<open>(i, j)\<close> of a 3x3 matrix, with the indices taken cyclically
  (which accounts for the sign), the determinant as the expansion along the first
  column, the adjugate as the transposed matrix of cofactors, and the adjugate over the
  determinant.
\<close>

definition cof :: "Matrix3 \<Rightarrow> nat \<Rightarrow> nat \<Rightarrow> real" where
  "cof A i j =
     entry A ((i + 1) mod 3) ((j + 1) mod 3) * entry A ((i + 2) mod 3) ((j + 2) mod 3)
     - entry A ((i + 1) mod 3) ((j + 2) mod 3) * entry A ((i + 2) mod 3) ((j + 1) mod 3)"

definition matdet :: "Matrix3 \<Rightarrow> real" where
  "matdet A = (\<Sum>i<3. entry A i 0 * cof A i 0)"

definition matadj :: "Matrix3 \<Rightarrow> Matrix3" where
  "matadj A = of_entries (\<lambda>i j. cof A j i)"

definition matinv :: "Matrix3 \<Rightarrow> Matrix3" where
  "matinv A = of_entries (\<lambda>i j. cof A j i / matdet A)"

text \<open>Elementwise maps, for the elementwise family.\<close>

definition mapm :: "(real \<Rightarrow> real) \<Rightarrow> Matrix3 \<Rightarrow> Matrix3" where
  "mapm f A = of_entries (\<lambda>i j. f (entry A i j))"

definition zipm :: "(real \<Rightarrow> real \<Rightarrow> real) \<Rightarrow> Matrix3 \<Rightarrow> Matrix3 \<Rightarrow> Matrix3" where
  "zipm f A B = of_entries (\<lambda>i j. f (entry A i j) (entry B i j))"

text \<open>
  Stores for the concrete examples: \<open>heap0\<close> is empty; \<open>heap2\<close> holds the matrix with
  rows \<open>(1, 2, 3)\<close>, \<open>(4, 5, 6)\<close>, \<open>(7, 8, 10)\<close> at reference \<open>0\<close> and the matrix with
  rows \<open>(2, 0, 1)\<close>, \<open>(1, 1, 0)\<close>, \<open>(0, 3, 1)\<close> at reference \<open>1\<close>; \<open>heap1s\<close> holds the
  singular matrix with rows \<open>(1, 2, 3)\<close>, \<open>(4, 5, 6)\<close>, \<open>(7, 8, 9)\<close> at reference \<open>0\<close>.
\<close>

definition heap0 :: heap where
  "heap0 =
     \<lparr>mats = (\<lambda>a. zeros9), mnext = 0, vecs = (\<lambda>a. \<lparr>c0 = 0, c1 = 0, c2 = 0\<rparr>), vnext = 0\<rparr>"

definition heap2 :: heap where
  "heap2 = snd (new_Matrix3 2 0 1 1 1 0 0 3 1 (snd (new_Matrix3 1 2 3 4 5 6 7 8 10 heap0)))"


text \<open>
  \<open>heapv\<close> holds the zero matrix at matrix reference \<open>0\<close> and the vector \<open>(1, 2, 3)\<close> at
  vector reference \<open>0\<close>.
\<close>

definition heapv :: heap where
  "heapv = snd (new_Vector3 1 2 3 (snd (zeros heap0)))"



text \<open>
  What is stated of every copying variant \<open>opc\<close>: its result \<open>rc\<close> is the result \<open>rk\<close> of
  the mutating operation on a clone, the returned reference is a new object, the
  receiver \<open>M\<close> keeps its contents, and the new object holds what the mutating operation,
  run on \<open>M\<close> itself (result \<open>rm\<close>), would have left in \<open>M\<close>.
\<close>

definition copies :: "heap \<Rightarrow> nat \<Rightarrow> nat \<times> heap \<Rightarrow> nat \<times> heap \<Rightarrow> nat \<times> heap \<Rightarrow> bool" where
  "copies h M rc rk rm =
     (rc = rk \<and> fst rc = mnext h \<and> mats (snd rc) M = mats h M \<and>
      mats (snd rc) (fst rc) = mats (snd rm) M)"

section \<open>Basic facts about the store\<close>

lemma getm_simps [simp]:
  "getm b 0 = e0 b" "getm b 1 = e1 b" "getm b 2 = e2 b"
  "getm b 3 = e3 b" "getm b 4 = e4 b" "getm b 5 = e5 b"
  "getm b 6 = e6 b" "getm b 7 = e7 b" "getm b 8 = e8 b"
  "getm b (Suc 0) = e1 b"
  by (simp_all add: getm_def)

lemma setm_simps [simp]:
  "setm b 0 v = b\<lparr>e0 := v\<rparr>" "setm b 1 v = b\<lparr>e1 := v\<rparr>" "setm b 2 v = b\<lparr>e2 := v\<rparr>"
  "setm b 3 v = b\<lparr>e3 := v\<rparr>" "setm b 4 v = b\<lparr>e4 := v\<rparr>" "setm b 5 v = b\<lparr>e5 := v\<rparr>"
  "setm b 6 v = b\<lparr>e6 := v\<rparr>" "setm b 7 v = b\<lparr>e7 := v\<rparr>" "setm b 8 v = b\<lparr>e8 := v\<rparr>"
  "setm b (Suc 0) v = b\<lparr>e1 := v\<rparr>"
  by (simp_all add: setm_def)

lemma getv_simps [simp]:
  "getv u 0 = c0 u" "getv u 1 = c1 u" "getv u 2 = c2 u" "getv u (Suc 0) = c1 u"
  by (simp_all add: getv_def)

lemma setv_simps [simp]:
  "setv u 0 v = u\<lparr>c0 := v\<rparr>" "setv u 1 v = u\<lparr>c1 := v\<rparr>" "setv u 2 v = u\<lparr>c2 := v\<rparr>"
  "setv u (Suc 0) v = u\<lparr>c1 := v\<rparr>"
  by (simp_all add: setv_def)

lemma put_simps [simp]:
  "mats (put a b h) = (mats h)(a := b)"
  "mnext (put a b h) = mnext h"
  "vecs (put a b h) = vecs h"
  "vnext (put a b h) = vnext h"
  "put a b (put a b' h) = put a b h"
  by (simp_all add: put_def)

lemma put_mnext [simp]: "(put a b h)\<lparr>mnext := n\<rparr> = put a b (h\<lparr>mnext := n\<rparr>)"
  by (simp add: put_def)

lemma vput_simps [simp]:
  "vecs (vput a u h) = (vecs h)(a := u)"
  "vnext (vput a u h) = vnext h"
  "mats (vput a u h) = mats h"
  "mnext (vput a u h) = mnext h"
  "vput a u (vput a u' h) = vput a u h"
  by (simp_all add: vput_def)

lemma wr_put [simp]: "wr a k v (put a b h) = put a (setm b k v) h"
  by (simp add: wr_def)

lemma vwr_vput [simp]: "vwr a k v (vput a u h) = vput a (setv u k v) h"
  by (simp add: vwr_def)

lemma Matrix3_eta [simp]:
  "\<lparr>e0 = e0 b, e1 = e1 b, e2 = e2 b, e3 = e3 b, e4 = e4 b, e5 = e5 b,
    e6 = e6 b, e7 = e7 b, e8 = e8 b\<rparr> = b"
  by (cases b) simp

lemma Matrix3_update_all [simp]:
  "b\<lparr>e0 := x0, e1 := x1, e2 := x2, e3 := x3, e4 := x4, e5 := x5, e6 := x6, e7 := x7,
     e8 := x8\<rparr> =
   \<lparr>e0 = x0, e1 = x1, e2 = x2, e3 = x3, e4 = x4, e5 = x5, e6 = x6, e7 = x7, e8 = x8\<rparr>"
  by (cases b) simp

lemma entry_simps:
  "entry b 0 0 = e0 b" "entry b (Suc 0) 0 = e1 b" "entry b 2 0 = e2 b"
  "entry b 0 (Suc 0) = e3 b" "entry b (Suc 0) (Suc 0) = e4 b" "entry b 2 (Suc 0) = e5 b"
  "entry b 0 2 = e6 b" "entry b (Suc 0) 2 = e7 b" "entry b 2 2 = e8 b"
  by (simp_all add: entry_def getm_def)

lemma sum_upto3: "(\<Sum>k<3. f k) = f 0 + f (Suc 0) + f (2::nat)"
  by (simp add: numeral_3_eq_3 numeral_2_eq_2)

lemma matmul_fields:
  "matmul A B =
     \<lparr>e0 = e0 A * e0 B + e3 A * e1 B + e6 A * e2 B,
      e1 = e1 A * e0 B + e4 A * e1 B + e7 A * e2 B,
      e2 = e2 A * e0 B + e5 A * e1 B + e8 A * e2 B,
      e3 = e0 A * e3 B + e3 A * e4 B + e6 A * e5 B,
      e4 = e1 A * e3 B + e4 A * e4 B + e7 A * e5 B,
      e5 = e2 A * e3 B + e5 A * e4 B + e8 A * e5 B,
      e6 = e0 A * e6 B + e3 A * e7 B + e6 A * e8 B,
      e7 = e1 A * e6 B + e4 A * e7 B + e7 A * e8 B,
      e8 = e2 A * e6 B + e5 A * e7 B + e8 A * e8 B\<rparr>"
  by (simp add: matmul_def of_entries_def sum_upto3 entry_simps)

lemma ident_fields:
  "ident = \<lparr>e0 = 1, e1 = 0, e2 = 0, e3 = 0, e4 = 1, e5 = 0, e6 = 0, e7 = 0, e8 = 1\<rparr>"
  by (simp add: ident_def of_entries_def)

text \<open>The net effect of the constructor, of \<open>clone\<close> and of \<open>prod\<close>.\<close>

lemma new_Matrix3_eff:
  "new_Matrix3 xx xy xz yx yy yz zx zy zz h =
     (mnext h,
      put (mnext h)
        \<lparr>e0 = xx, e1 = yx, e2 = zx, e3 = xy, e4 = yy, e5 = zy, e6 = xz, e7 = yz, e8 = zz\<rparr>
        (h\<lparr>mnext := mnext h + 1\<rparr>))"
  by (simp add: new_Matrix3_def zeros9_def Let_def)

lemma clone_eff:
  "clone this h = (mnext h, put (mnext h) (mats h this) (h\<lparr>mnext := mnext h + 1\<rparr>))"
  by (simp add: clone_def new_Matrix3_eff rd_def)

lemma prod_m_eff:
  "prod_m this m h = (this, put this (matmul (mats h this) (mats h m)) h)"
  by (simp add: prod_m_def rd_def wr_def Let_def matmul_fields mult.commute)

section \<open>The code computes the matrix algebra\<close>

lemma cof_simps:
  "cof A 0 0 = e4 A * e8 A - e7 A * e5 A"
  "cof A (Suc 0) 0 = e5 A * e6 A - e8 A * e3 A"
  "cof A 2 0 = e3 A * e7 A - e6 A * e4 A"
  "cof A 0 (Suc 0) = e7 A * e2 A - e1 A * e8 A"
  "cof A (Suc 0) (Suc 0) = e8 A * e0 A - e2 A * e6 A"
  "cof A 2 (Suc 0) = e6 A * e1 A - e0 A * e7 A"
  "cof A 0 2 = e1 A * e5 A - e4 A * e2 A"
  "cof A (Suc 0) 2 = e2 A * e3 A - e5 A * e0 A"
  "cof A 2 2 = e0 A * e4 A - e3 A * e1 A"
  by (simp_all add: cof_def entry_def getm_def)

lemma matdet_fields:
  "matdet A = e0 A * (e4 A * e8 A - e7 A * e5 A) + e1 A * (e5 A * e6 A - e8 A * e3 A)
     + e2 A * (e3 A * e7 A - e6 A * e4 A)"
  by (simp add: matdet_def sum_upto3 cof_simps entry_simps)

lemma det_eff: "det this h = matdet (mats h this)"
  by (simp add: det_def rd_def Let_def matdet_fields algebra_simps)

lemma matadj_fields:
  "matadj A = \<lparr>e0 = cof A 0 0, e1 = cof A 0 (Suc 0), e2 = cof A 0 2,
      e3 = cof A (Suc 0) 0, e4 = cof A (Suc 0) (Suc 0), e5 = cof A (Suc 0) 2,
      e6 = cof A 2 0, e7 = cof A 2 (Suc 0), e8 = cof A 2 2\<rparr>"
  by (simp add: matadj_def of_entries_def)

lemma adj_eff: "adj this h = (this, put this (matadj (mats h this)) h)"
  by (simp add: adj_def rd_def wr_def Let_def matadj_fields cof_simps algebra_simps)

lemma matinv_fields:
  "matinv A = \<lparr>e0 = cof A 0 0 / matdet A, e1 = cof A 0 (Suc 0) / matdet A, e2 = cof A 0 2 / matdet A,
      e3 = cof A (Suc 0) 0 / matdet A, e4 = cof A (Suc 0) (Suc 0) / matdet A, e5 = cof A (Suc 0) 2 / matdet A,
      e6 = cof A 2 0 / matdet A, e7 = cof A 2 (Suc 0) / matdet A, e8 = cof A 2 2 / matdet A\<rparr>"
  by (simp add: matinv_def of_entries_def)

lemma inv_m_eff:
  "inv_m this h =
     (if matdet (mats h this) = 0 then (None, h)
      else (Some this, put this (matinv (mats h this)) h))"
proof -
  define b where "b = mats h this"
  have d: "e0 b * (e8 b * e4 b - e5 b * e7 b) + e1 b * (- e8 b * e3 b + e5 b * e6 b)
      + e2 b * (e7 b * e3 b - e4 b * e6 b) = matdet b"
    by (simp add: matdet_fields algebra_simps)
  show ?thesis
    unfolding inv_m_def Let_def rd_def getm_simps b_def [symmetric] d
    by (simp add: wr_def b_def [symmetric] matinv_fields cof_simps algebra_simps diff_divide_distrib)
qed

lemma matmul_assoc: "matmul (matmul A B) C = matmul A (matmul B C)"
  by (simp add: matmul_fields algebra_simps)

lemma matmul_ident [simp]: "matmul ident A = A" "matmul A ident = A"
  by (simp_all add: matmul_fields ident_fields)










lemma matpow_add: "matpow A (m + n) = matmul (matpow A m) (matpow A n)"
  by (induction n) (simp_all add: matmul_assoc)

lemma matpow_square: "matpow (matmul A A) k = matpow A (2 * k)"
  by (induction k) (simp_all add: matmul_assoc matpow_add)

lemma entry_of_entries:
  "i < 3 \<Longrightarrow> j < 3 \<Longrightarrow> entry (of_entries f) i j = f i j"
proof -
  assume "i < 3" "j < 3"
  then have "i \<in> {0, 1, 2}" "j \<in> {0, 1, 2}" by auto
  then show ?thesis by (auto simp: entry_def of_entries_def getm_def)
qed

lemma entry_matmul:
  "i < 3 \<Longrightarrow> j < 3 \<Longrightarrow> entry (matmul A B) i j = (\<Sum>k<3. entry A i k * entry B k j)"
  by (simp add: matmul_def entry_of_entries)

lemma heap2_simps:
  "mnext heap2 = 2"
  "mats heap2 0 = \<lparr>e0 = 1, e1 = 4, e2 = 7, e3 = 2, e4 = 5, e5 = 8, e6 = 3, e7 = 6, e8 = 10\<rparr>"
  "mats heap2 (Suc 0) = \<lparr>e0 = 2, e1 = 1, e2 = 0, e3 = 0, e4 = 1, e5 = 3, e6 = 1, e7 = 0, e8 = 1\<rparr>"
  by (simp_all add: heap2_def heap0_def new_Matrix3_eff)


lemma rpow_step:
  "1 < ex \<Longrightarrow>
   rpow this ex h =
     (let h2 = put this (matmul (mats h this) (mats h this))
                 (put (mnext h) (mats h this) (h\<lparr>mnext := mnext h + 1\<rparr>))
      in if ex mod 2 = 0 then rpow this (ex div 2) h2
         else snd (prod_m this (mnext h) (rpow this ((ex - 1) div 2) h2)))"
  apply (subst rpow.simps)
  apply (simp add: clone_eff prod_m_eff Let_def)
  done

lemma rpow_stop: "ex \<le> 1 \<Longrightarrow> rpow this ex h = h"
  by (subst rpow.simps) simp

lemma rpow_eff:
  assumes "this < mnext h" and "1 \<le> ex"
  shows "mats (rpow this ex h) this = matpow (mats h this) (nat ex) \<and>
         (\<forall>a<mnext h. a \<noteq> this \<longrightarrow> mats (rpow this ex h) a = mats h a) \<and>
         mnext h \<le> mnext (rpow this ex h) \<and>
         vecs (rpow this ex h) = vecs h \<and> vnext (rpow this ex h) = vnext h"
  using assms
proof (induction this ex h rule: rpow.induct)
  case (1 this ex h)
  define b where "b = mats h this"
  define h1 where "h1 = put (mnext h) b (h\<lparr>mnext := mnext h + 1\<rparr>)"
  define h2 where "h2 = put this (matmul b b) h1"
  show ?case
  proof (cases "1 < ex")
    case False
    with "1.prems" have "ex = 1" by simp
    then show ?thesis by (simp add: rpow_stop)
  next
    case big: True
    have c: "clone this h = (mnext h, h1)"
      by (simp add: clone_eff b_def h1_def)
    have p: "snd (prod_m this (mnext h) h1) = h2"
      by (simp add: prod_m_eff h2_def h1_def b_def)
    have pre: "this < mnext h2"
      using "1.prems" by (simp add: h2_def h1_def)
    have ne: "this \<noteq> mnext h"
      using "1.prems" by simp
    have m2: "mats h2 this = matmul b b" "mats h2 (mnext h) = b" "mnext h2 = mnext h + 1"
      "vecs h2 = vecs h" "vnext h2 = vnext h"
      using ne by (simp_all add: h2_def h1_def)
    have fr2: "a < mnext h \<Longrightarrow> a \<noteq> this \<Longrightarrow> mats h2 a = mats h a" for a
      by (simp add: h2_def h1_def)
    have step: "rpow this ex h =
        (if ex mod 2 = 0 then rpow this (ex div 2) h2
         else snd (prod_m this (mnext h) (rpow this ((ex - 1) div 2) h2)))"
      using rpow_step [OF big, of this h] by (simp add: Let_def h2_def h1_def b_def)
    show ?thesis
    proof (cases "ex mod 2 = 0")
      case True
      have k: "1 \<le> ex div 2" using big by simp
      note ih = "1.IH"(1) [OF big refl c [symmetric] p [symmetric] True pre k]
      have e: "2 * (ex div 2) = ex" using True by presburger
      have "nat ex = nat (2 * (ex div 2))" by (simp only: e)
      then have n: "nat ex = 2 * nat (ex div 2)" by (simp add: nat_mult_distrib)
      have "mats (rpow this ex h) this = matpow b (nat ex)"
        using ih by (simp add: step True m2 matpow_square n)
      moreover have "\<forall>a<mnext h. a \<noteq> this \<longrightarrow> mats (rpow this ex h) a = mats h a"
        using ih by (simp add: step True m2 fr2)
      moreover have "mnext h \<le> mnext (rpow this ex h)"
        using ih by (simp add: step True m2)
      moreover have "vecs (rpow this ex h) = vecs h \<and> vnext (rpow this ex h) = vnext h"
        using ih by (simp add: step True m2)
      ultimately show ?thesis by (simp add: b_def)
    next
      case False
      then have odd: "ex mod 2 = 1" by presburger
      have k: "1 \<le> (ex - 1) div 2" using big odd by presburger
      note ih = "1.IH"(2) [OF big refl c [symmetric] p [symmetric] False odd pre k]
      define h3 where "h3 = rpow this ((ex - 1) div 2) h2"
      have e: "2 * ((ex - 1) div 2) + 1 = ex" using odd by presburger
      have "nat ex = nat (2 * ((ex - 1) div 2) + 1)" by (simp only: e)
      then have n: "nat ex = Suc (2 * nat ((ex - 1) div 2))"
        using k by (simp add: nat_add_distrib nat_mult_distrib)
      have r: "rpow this ex h = put this (matmul (mats h3 this) (mats h3 (mnext h))) h3"
        by (simp add: step False prod_m_eff h3_def)
      have cp: "mats h3 (mnext h) = b"
        using ih ne by (simp add: h3_def m2)
      have t: "mats h3 this = matpow b (2 * nat ((ex - 1) div 2))"
        using ih by (simp add: h3_def m2 matpow_square)
      have "mats (rpow this ex h) this = matpow b (nat ex)"
        by (simp add: r cp t n)
      moreover have "\<forall>a<mnext h. a \<noteq> this \<longrightarrow> mats (rpow this ex h) a = mats h a"
        using ih by (simp add: r h3_def m2 fr2)
      moreover have "mnext h \<le> mnext (rpow this ex h)"
        using ih by (simp add: r h3_def m2)
      moreover have "vecs (rpow this ex h) = vecs h \<and> vnext (rpow this ex h) = vnext h"
        using ih by (simp add: r h3_def m2)
      ultimately show ?thesis by (simp add: b_def)
    qed
  qed
qed

lemma assign_eff:
  "assign this xx xy xz yx yy yz zx zy zz h =
     (this, put this
        \<lparr>e0 = xx, e1 = yx, e2 = zx, e3 = xy, e4 = yy, e5 = zy, e6 = xz, e7 = yz, e8 = zz\<rparr> h)"
  by (simp add: assign_def wr_def Let_def)

lemma mapm_fields:
  "mapm f A = \<lparr>e0 = f (e0 A), e1 = f (e1 A), e2 = f (e2 A), e3 = f (e3 A), e4 = f (e4 A),
      e5 = f (e5 A), e6 = f (e6 A), e7 = f (e7 A), e8 = f (e8 A)\<rparr>"
  by (simp add: mapm_def of_entries_def entry_simps)

lemma zipm_fields:
  "zipm f A B = \<lparr>e0 = f (e0 A) (e0 B), e1 = f (e1 A) (e1 B), e2 = f (e2 A) (e2 B),
      e3 = f (e3 A) (e3 B), e4 = f (e4 A) (e4 B), e5 = f (e5 A) (e5 B),
      e6 = f (e6 A) (e6 B), e7 = f (e7 A) (e7 B), e8 = f (e8 A) (e8 B)\<rparr>"
  by (simp add: zipm_def of_entries_def entry_simps)

lemma mattr_fields:
  "mattr A = \<lparr>e0 = e0 A, e1 = e3 A, e2 = e6 A, e3 = e1 A, e4 = e4 A, e5 = e7 A,
      e6 = e2 A, e7 = e5 A, e8 = e8 A\<rparr>"
  by (simp add: mattr_def of_entries_def entry_simps)

lemma fill_eff: "fill this s h = (this, put this (mapm (\<lambda>x. s) (mats h this)) h)"
  by (simp add: fill_def wr_def Let_def mapm_fields)

lemma norm_m_eff:
  "norm_m mag this h =
     (this, put this (mapm (\<lambda>x. x / mag (mats h this)) (mats h this)) h)"
  by (simp add: norm_m_def wr_def rd_def Let_def mapm_fields)

lemma add_eff: "add this m h = (this, put this (zipm (+) (mats h this) (mats h m)) h)"
  by (cases "m = this") (simp_all add: add_def wr_def rd_def Let_def zipm_fields)

lemma sub_eff: "sub this m h = (this, put this (zipm (-) (mats h this) (mats h m)) h)"
  by (cases "m = this") (simp_all add: sub_def wr_def rd_def Let_def zipm_fields)

lemma neg_eff: "neg this h = (this, put this (mapm (\<lambda>x. x * (- 1)) (mats h this)) h)"
  by (simp add: neg_def wr_def rd_def Let_def mapm_fields)

lemma mul_eff: "mul this s h = (this, put this (mapm (\<lambda>x. x * s) (mats h this)) h)"
  by (simp add: mul_def wr_def rd_def Let_def mapm_fields)

lemma div_m_eff: "div_m this s h = (this, put this (mapm (\<lambda>x. x / s) (mats h this)) h)"
  by (simp add: div_m_def wr_def rd_def Let_def mapm_fields)

lemma lerp_eff:
  "lerp this m t h =
     (this, put this (zipm (\<lambda>x y. x + (y - x) * t) (mats h this) (mats h m)) h)"
  by (cases "m = this") (simp_all add: lerp_def wr_def rd_def Let_def zipm_fields)

lemma trans_m_eff: "trans_m this h = (this, put this (mattr (mats h this)) h)"
  by (cases "mats h this") (simp add: trans_m_def wr_def rd_def Let_def mattr_fields)

lemma pow_eff:
  assumes "this < mnext h"
  shows "fst (pow this n h) = this \<and>
         mats (snd (pow this n h)) this =
           matpow (if n < 0 \<and> matdet (mats h this) \<noteq> 0 then matinv (mats h this)
                   else mats h this) (nat \<bar>n\<bar>) \<and>
         (\<forall>a<mnext h. a \<noteq> this \<longrightarrow> mats (snd (pow this n h)) a = mats h a) \<and>
         mnext h \<le> mnext (snd (pow this n h)) \<and>
         vecs (snd (pow this n h)) = vecs h \<and> vnext (snd (pow this n h)) = vnext h"
proof (cases "n = 0")
  case True
  then show ?thesis
    by (simp add: pow_def assign_eff rpow_stop ident_fields)
next
  case False
  define h1 where "h1 = (if n < 0 then snd (inv_m this h) else h)"
  have p: "pow this n h = (this, rpow this \<bar>n\<bar> h1)"
    using False by (simp add: pow_def h1_def)
  have h1: "mats h1 this = (if n < 0 \<and> matdet (mats h this) \<noteq> 0 then matinv (mats h this)
                else mats h this)" "mnext h1 = mnext h" "vecs h1 = vecs h" "vnext h1 = vnext h"
    by (simp_all add: h1_def inv_m_eff)
  have fr: "a \<noteq> this \<Longrightarrow> mats h1 a = mats h a" for a
    by (simp add: h1_def inv_m_eff)
  have pre: "this < mnext h1" "1 \<le> \<bar>n\<bar>"
    using assms False by (simp_all add: h1)
  note r = rpow_eff [OF pre]
  show ?thesis
    using r by (simp add: p h1 fr)
qed

lemma powc_eff:
  assumes "M < mnext h"
  shows "fst (powc M n h) = mnext h \<and>
         mats (snd (powc M n h)) (mnext h) =
           matpow (if n < 0 \<and> matdet (mats h M) \<noteq> 0 then matinv (mats h M)
                   else mats h M) (nat \<bar>n\<bar>) \<and>
         (\<forall>a<mnext h. mats (snd (powc M n h)) a = mats h a) \<and>
         mnext h < mnext (snd (powc M n h)) \<and>
         vecs (snd (powc M n h)) = vecs h \<and> vnext (snd (powc M n h)) = vnext h"
proof -
  define h1 where "h1 = put (mnext h) (mats h M) (h\<lparr>mnext := mnext h + 1\<rparr>)"
  have p: "powc M n h = pow (mnext h) n h1"
    by (simp add: powc_def clone_eff h1_def)
  have pre: "mnext h < mnext h1" by (simp add: h1_def)
  have m: "mats h1 (mnext h) = mats h M" "mnext h1 = mnext h + 1" "vecs h1 = vecs h"
    "vnext h1 = vnext h"
    by (simp_all add: h1_def)
  have fr: "a < mnext h \<Longrightarrow> mats h1 a = mats h a" for a
    by (simp add: h1_def)
  note r = pow_eff [OF pre, of n]
  show ?thesis
    using r by (simp add: p m fr)
qed



lemma invc_eff:
  "invc M h =
     (if matdet (mats h M) = 0
      then (None, put (mnext h) (mats h M) (h\<lparr>mnext := mnext h + 1\<rparr>))
      else (Some (mnext h), put (mnext h) (matinv (mats h M)) (h\<lparr>mnext := mnext h + 1\<rparr>)))"
  by (simp add: invc_def clone_eff inv_m_eff)

lemma transc_eff:
  "transc M h = (mnext h, put (mnext h) (mattr (mats h M)) (h\<lparr>mnext := mnext h + 1\<rparr>))"
  by (simp add: transc_def clone_eff trans_m_eff)

lemma new_Vector3_eff:
  "new_Vector3 a b c h =
     (vnext h, vput (vnext h) \<lparr>c0 = a, c1 = b, c2 = c\<rparr> (h\<lparr>vnext := vnext h + 1\<rparr>))"
  by (simp add: new_Vector3_def Let_def)

lemma heapv_simps:
  "mats heapv 0 = zeros9" "vecs heapv 0 = \<lparr>c0 = 1, c1 = 2, c2 = 3\<rparr>"
  "mnext heapv = 1" "vnext heapv = 1"
  by (simp_all add: heapv_def zeros_def new_Matrix3_eff new_Vector3_eff heap0_def zeros9_def)

lemma set_x_eff:
  "set_x this newX h =
     put this ((mats h this)\<lparr>e0 := c0 (vecs h newX), e3 := c1 (vecs h newX),
        e6 := c2 (vecs h newX)\<rparr>) h"
  by (simp add: set_x_def wr_def vrd_def Let_def)

lemma set_y_eff:
  "set_y this newY h =
     put this ((mats h this)\<lparr>e1 := c0 (vecs h newY), e4 := c1 (vecs h newY),
        e7 := c2 (vecs h newY)\<rparr>) h"
  by (simp add: set_y_def wr_def vrd_def Let_def)

lemma set_z_eff:
  "set_z this newZ h =
     put this ((mats h this)\<lparr>e2 := c0 (vecs h newZ), e5 := c1 (vecs h newZ),
        e8 := c2 (vecs h newZ)\<rparr>) h"
  by (simp add: set_z_def wr_def vrd_def Let_def)



lemma addc_copies:
  "M < mnext h \<Longrightarrow> m < mnext h \<Longrightarrow>
   copies h M (addc M m h) (let (c, h1) = clone M h in add c m h1) (add M m h)"
  by (simp add: copies_def addc_def clone_eff add_eff)

lemma subc_copies:
  "M < mnext h \<Longrightarrow> m < mnext h \<Longrightarrow>
   copies h M (subc M m h) (let (c, h1) = clone M h in sub c m h1) (sub M m h)"
  by (simp add: copies_def subc_def clone_eff sub_eff)

lemma negc_copies:
  "M < mnext h \<Longrightarrow> copies h M (negc M h) (let (c, h1) = clone M h in neg c h1) (neg M h)"
  by (simp add: copies_def negc_def clone_eff neg_eff)

lemma mulc_copies:
  "M < mnext h \<Longrightarrow>
   copies h M (mulc M s h) (let (c, h1) = clone M h in mul c s h1) (mul M s h)"
  by (simp add: copies_def mulc_def clone_eff mul_eff)

lemma divc_copies:
  "M < mnext h \<Longrightarrow>
   copies h M (divc M s h) (let (c, h1) = clone M h in div_m c s h1) (div_m M s h)"
  by (simp add: copies_def divc_def clone_eff div_m_eff)

lemma lerpc_copies:
  "M < mnext h \<Longrightarrow> m < mnext h \<Longrightarrow>
   copies h M (lerpc M m t h) (let (c, h1) = clone M h in lerp c m t h1) (lerp M m t h)"
  by (simp add: copies_def lerpc_def clone_eff lerp_eff)

lemma fillc_copies:
  "M < mnext h \<Longrightarrow>
   copies h M (fillc M s h) (let (c, h1) = clone M h in fill c s h1) (fill M s h)"
  by (simp add: copies_def fillc_def clone_eff fill_eff mapm_fields)

lemma normc_copies:
  "M < mnext h \<Longrightarrow>
   copies h M (normc mag M h) (let (c, h1) = clone M h in norm_m mag c h1) (norm_m mag M h)"
  by (simp add: copies_def normc_def clone_eff norm_m_eff)

lemma transc_copies:
  "M < mnext h \<Longrightarrow>
   copies h M (transc M h) (let (c, h1) = clone M h in trans_m c h1) (trans_m M h)"
  by (simp add: copies_def transc_def clone_eff trans_m_eff)

lemma prodc_copies:
  "M < mnext h \<Longrightarrow> m < mnext h \<Longrightarrow>
   copies h M (prodc M m h) (let (c, h1) = clone M h in prod_m c m h1) (prod_m M m h)"
  by (simp add: copies_def prodc_def clone_eff prod_m_eff)

lemma adjc_copies:
  "M < mnext h \<Longrightarrow>
   copies h M (adjc M h) (let (c, h1) = clone M h in adj c h1) (adj M h)"
  by (simp add: copies_def adjc_def clone_eff adj_eff)

lemma powc_copies:
  assumes "M < mnext h"
  shows "copies h M (powc M n h) (let (c, h1) = clone M h in pow c n h1) (pow M n h)"
  using powc_eff [OF assms, of n] pow_eff [OF assms, of n] assms
  by (simp add: copies_def powc_def [symmetric])

lemma invc_copies:
  assumes "M < mnext h"
  shows "invc M h = (let (c, h1) = clone M h in inv_m c h1) \<and>
         fst (invc M h) = (if det M h = 0 then None else Some (mnext h)) \<and>
         mats (snd (invc M h)) M = mats h M \<and>
         mats (snd (invc M h)) (mnext h) = mats (snd (inv_m M h)) M"
proof -
  have 1: "invc M h = (let (c, h1) = clone M h in inv_m c h1)"
    by (simp add: invc_def)
  have 2: "fst (invc M h) = (if det M h = 0 then None else Some (mnext h)) \<and>
         mats (snd (invc M h)) M = mats h M \<and>
         mats (snd (invc M h)) (mnext h) = mats (snd (inv_m M h)) M"
    using assms by (simp add: invc_eff inv_m_eff det_eff)
  show ?thesis by (rule conjI [OF 1 2])
qed

section \<open>The claims\<close>



text \<open>
  C2: \<open>A.prod(B)\<close> returns \<open>A\<close> and changes nothing but the contents of \<open>A\<close>, whose entry
  \<open>(i, j)\<close> becomes the sum over \<open>k\<close> of \<open>A(i, k) * B(k, j)\<close>, taken on the contents before
  the call. Nothing is assumed about \<open>A\<close> and \<open>B\<close> being different objects, and the last
  part states the case \<open>A.prod(A)\<close>.
\<close>

theorem prod_matrix_product:
  "fst (prod_m A B h) = A \<and>
   snd (prod_m A B h) = put A (mats (snd (prod_m A B h)) A) h \<and>
   (\<forall>i<3. \<forall>j<3. entry (mats (snd (prod_m A B h)) A) i j
       = (\<Sum>k<3. entry (mats h A) i k * entry (mats h B) k j)) \<and>
   (\<forall>i<3. \<forall>j<3. entry (mats (snd (prod_m A A h)) A) i j
       = (\<Sum>k<3. entry (mats h A) i k * entry (mats h A) k j))"
  by (simp add: prod_m_eff entry_matmul)

theorem prod_matrix_product_witness:
  "(1::nat) < 3 \<and> (2::nat) < 3 \<and>
   fst (prod_m 0 1 heap2) = 0 \<and>
   entry (mats (snd (prod_m 0 1 heap2)) 0) 1 2 = 10 \<and>
   entry (mats (snd (prod_m 0 0 heap2)) 0) 1 2 = 102"
proof -
  note t = prod_matrix_product [of 0 1 heap2]
  have a: "entry (mats (snd (prod_m 0 1 heap2)) 0) 1 2 = 10"
    using t [THEN conjunct2, THEN conjunct2, THEN conjunct1, rule_format, of 1 2]
    by (simp add: sum_upto3 heap2_simps entry_simps)
  have b: "entry (mats (snd (prod_m 0 0 heap2)) 0) 1 2 = 102"
    using t [THEN conjunct2, THEN conjunct2, THEN conjunct2, rule_format, of 1 2]
    by (simp add: sum_upto3 heap2_simps entry_simps)
  from t a b show ?thesis by simp
qed



text \<open>
  C4, as stated, fails: \<open>Matrix3.array(M.array())\<close> is not \<open>M\<close> again. For the matrix with
  rows \<open>(1, 2, 3)\<close>, \<open>(4, 5, 6)\<close>, \<open>(7, 8, 10)\<close> the squared distance between the result and
  \<open>M\<close> is \<open>48\<close>, so \<open>equal\<close> fails for the tolerance \<open>48\<close> (and for every smaller one).
\<close>

theorem array_roundtrip_counterexample:
  "dist2 (fst (the (Matrix3_array (array 0 heap2) heap2))) 0
     (snd (the (Matrix3_array (array 0 heap2) heap2))) = 48 \<and>
   \<not> equal 48 (fst (the (Matrix3_array (array 0 heap2) heap2))) 0
     (snd (the (Matrix3_array (array 0 heap2) heap2)))"
  by (simp add: Matrix3_array_def array_def rd_def new_Matrix3_eff heap2_simps equal_def
      dist2_def)

text \<open>
  C4, as amended: for every matrix \<open>M\<close> of the store, \<open>Matrix3.array(M.array())\<close> is exactly
  what \<open>M.transc()\<close> is: a new matrix that holds the transpose of \<open>M\<close>, while \<open>M\<close> keeps its
  contents. The squared distance between the result and \<open>M\<close> is twice the sum of the
  squares of the differences of the mirrored off-diagonal entries, which is \<open>0\<close> when \<open>M\<close>
  is symmetric.
\<close>

theorem array_roundtrip_transpose:
  assumes "M < mnext h"
  shows "Matrix3_array (array M h) h = Some (transc M h) \<and>
         mats (snd (transc M h)) (fst (transc M h)) = mattr (mats h M) \<and>
         mats (snd (transc M h)) M = mats h M \<and>
         dist2 (fst (transc M h)) M (snd (transc M h)) =
           2 * ((e1 (mats h M) - e3 (mats h M))\<^sup>2 + (e2 (mats h M) - e6 (mats h M))\<^sup>2
                + (e5 (mats h M) - e7 (mats h M))\<^sup>2)"
  using assms
  by (simp add: Matrix3_array_def array_def rd_def new_Matrix3_eff transc_eff mattr_fields
      dist2_def power2_eq_square algebra_simps)

theorem array_roundtrip_transpose_witness:
  "0 < mnext heap2 \<and>
   Matrix3_array (array 0 heap2) heap2 = Some (transc 0 heap2) \<and>
   mats (snd (transc 0 heap2)) (fst (transc 0 heap2)) =
     \<lparr>e0 = 1, e1 = 2, e2 = 3, e3 = 4, e4 = 5, e5 = 6, e6 = 7, e7 = 8, e8 = 10\<rparr> \<and>
   dist2 (fst (transc 0 heap2)) 0 (snd (transc 0 heap2)) = 48"
  using array_roundtrip_transpose [of 0 heap2]
  by (simp add: heap2_simps mattr_fields)

text \<open>
  C5: writing a vector to a named row view and reading the same view back does not
  yield the vector in the code. On the zero matrix, after \<open>M.x = (1, 2, 3)\<close> the getter
  \<open>M.x\<close> yields \<open>(1, 0, 0)\<close>; after \<open>M.y = (1, 2, 3)\<close> the getter \<open>M.y\<close> yields \<open>(0, 2, 0)\<close>;
  after \<open>M.z = (1, 2, 3)\<close> the getter \<open>M.z\<close> yields \<open>(0, 0, 3)\<close>. The setters write a row
  and the getters read a column, while the getter \<open>xyz\<close> reads rows: after
  \<open>M.x = (1, 2, 3)\<close> its first vector is \<open>(1, 2, 3)\<close>.
\<close>

theorem row_view_readback:
  "vecs heapv 0 = \<lparr>c0 = 1, c1 = 2, c2 = 3\<rparr> \<and>
   vecs (snd (get_x 0 (set_x 0 0 heapv))) (fst (get_x 0 (set_x 0 0 heapv)))
     = \<lparr>c0 = 1, c1 = 0, c2 = 0\<rparr> \<and>
   vecs (snd (get_y 0 (set_y 0 0 heapv))) (fst (get_y 0 (set_y 0 0 heapv)))
     = \<lparr>c0 = 0, c1 = 2, c2 = 0\<rparr> \<and>
   vecs (snd (get_z 0 (set_z 0 0 heapv))) (fst (get_z 0 (set_z 0 0 heapv)))
     = \<lparr>c0 = 0, c1 = 0, c2 = 3\<rparr> \<and>
   vecs (snd (get_xyz 0 (set_x 0 0 heapv))) (fst (fst (get_xyz 0 (set_x 0 0 heapv))))
     = \<lparr>c0 = 1, c1 = 2, c2 = 3\<rparr>"
  by (simp add: get_x_def get_y_def get_z_def get_xyz_def set_x_eff set_y_eff set_z_eff
      new_Vector3_eff rd_def heapv_simps zeros9_def Let_def split_def)



text \<open>
  C7: for each of the thirteen operations with a copying variant, on a matrix \<open>M\<close> of the
  store (and an argument matrix \<open>m\<close> of the store, which may be \<open>M\<close> itself), the copying
  variant returns what the mutating operation returns on a clone of \<open>M\<close>, the result is a
  new object, every entry of \<open>M\<close> is unchanged, and the new object holds what the
  mutating operation would have left in \<open>M\<close>. For \<open>invc\<close> the result is \<open>undefined\<close> when
  the determinant is \<open>0\<close>.
\<close>

theorem copying_variants:
  assumes "M < mnext h" and "m < mnext h"
  shows "copies h M (addc M m h) (let (c, h1) = clone M h in add c m h1) (add M m h) \<and>
         copies h M (subc M m h) (let (c, h1) = clone M h in sub c m h1) (sub M m h) \<and>
         copies h M (negc M h) (let (c, h1) = clone M h in neg c h1) (neg M h) \<and>
         copies h M (mulc M s h) (let (c, h1) = clone M h in mul c s h1) (mul M s h) \<and>
         copies h M (divc M s h) (let (c, h1) = clone M h in div_m c s h1) (div_m M s h) \<and>
         copies h M (lerpc M m t h) (let (c, h1) = clone M h in lerp c m t h1)
           (lerp M m t h) \<and>
         copies h M (fillc M s h) (let (c, h1) = clone M h in fill c s h1) (fill M s h) \<and>
         copies h M (normc mag M h) (let (c, h1) = clone M h in norm_m mag c h1)
           (norm_m mag M h) \<and>
         copies h M (transc M h) (let (c, h1) = clone M h in trans_m c h1) (trans_m M h) \<and>
         copies h M (prodc M m h) (let (c, h1) = clone M h in prod_m c m h1)
           (prod_m M m h) \<and>
         copies h M (adjc M h) (let (c, h1) = clone M h in adj c h1) (adj M h) \<and>
         copies h M (powc M n h) (let (c, h1) = clone M h in pow c n h1) (pow M n h) \<and>
         invc M h = (let (c, h1) = clone M h in inv_m c h1) \<and>
         fst (invc M h) = (if det M h = 0 then None else Some (mnext h)) \<and>
         mats (snd (invc M h)) M = mats h M \<and>
         mats (snd (invc M h)) (mnext h) = mats (snd (inv_m M h)) M"
  by (intro conjI addc_copies [OF assms] subc_copies [OF assms] negc_copies [OF assms(1)]
      mulc_copies [OF assms(1)] divc_copies [OF assms(1)] lerpc_copies [OF assms]
      fillc_copies [OF assms(1)] normc_copies [OF assms(1)] transc_copies [OF assms(1)]
      prodc_copies [OF assms] adjc_copies [OF assms(1)] powc_copies [OF assms(1)]
      invc_copies [OF assms(1), THEN conjunct1]
      invc_copies [OF assms(1), THEN conjunct2, THEN conjunct1]
      invc_copies [OF assms(1), THEN conjunct2, THEN conjunct2, THEN conjunct1]
      invc_copies [OF assms(1), THEN conjunct2, THEN conjunct2, THEN conjunct2])

theorem copying_variants_witness:
  "0 < mnext heap2 \<and> 1 < mnext heap2 \<and>
   copies heap2 0 (addc 0 1 heap2) (let (c, h1) = clone 0 heap2 in add c 1 h1) (add 0 1 heap2)"
proof -
  have pre: "0 < mnext heap2" "1 < mnext heap2"
    by (simp_all add: heap2_simps)
  have a: "copies heap2 0 (addc 0 1 heap2) (let (c, h1) = clone 0 heap2 in add c 1 h1)
      (add 0 1 heap2)"
    using copying_variants [OF pre, of 2 "1 / 2" "\<lambda>b. 2" 2] by (rule conjunct1)
  show ?thesis by (rule conjI [OF pre(1) conjI [OF pre(2) a]])
qed







end
